theory Spec2Isabelle
  imports Main
begin

section \<open>The extension host side: \<^verbatim>\<open>src/src/extension.ts\<close>\<close>

subsection \<open>Values of the editor API that the extension reads\<close>

text \<open>
  A \<^verbatim>\<open>Uri\<close> is read by the extension through \<^verbatim>\<open>fsPath\<close> and rewritten with
  \<^verbatim>\<open>with({scheme: 'map'})\<close>; those are the two components kept here.
\<close>

record uri =
  scheme :: string
  fsPath :: string

definition with_scheme :: "uri \<Rightarrow> string \<Rightarrow> uri" where
  "with_scheme u s = u\<lparr>scheme := s\<rparr>"

text \<open>
  A \<^verbatim>\<open>TextDocument\<close>: its uri, its language id and its text (what \<^verbatim>\<open>getText()\<close>
  would return). The handlers below are given the whole document.
\<close>

record document =
  uri :: uri
  languageId :: string
  getText :: string

datatype contentChange = ContentChange string

text \<open>\<^verbatim>\<open>TextDocumentChangeEvent\<close>: the document and its list of content changes.\<close>

datatype textDocumentChangeEvent = TextDocumentChangeEvent document "contentChange list"

text \<open>
  \<^verbatim>\<open>ViewColumn\<close> is a numeric enum of the editor API (\<^verbatim>\<open>One = 1\<close>, ..., \<^verbatim>\<open>Nine = 9\<close>,
  \<^verbatim>\<open>Active = -1\<close>, \<^verbatim>\<open>Beside = -2\<close>); the code adds \<^verbatim>\<open>1\<close> to it, so it is an integer
  here. A \<^verbatim>\<open>TextEditor\<close> has a document and a view column that may be undefined.
\<close>

definition ViewColumn_One :: int where
  "ViewColumn_One = 1"

record textEditor =
  document :: document
  viewColumn :: "int option"

text \<open>\<^verbatim>\<open>window\<close>: the only part read is \<^verbatim>\<open>window.activeTextEditor\<close>.\<close>

record window =
  activeTextEditor :: "textEditor option"

text \<open>The html template handed to a view, or undefined.\<close>

datatype template = Template string

text \<open>
  Modelled from the spec: the class \<^verbatim>\<open>MapView\<close> (\<^verbatim>\<open>./map.view\<close>) is not among the
  sources. A view is the record of what its constructor is called with:
  \<^verbatim>\<open>new MapView(viewType, extensionPath, resource, viewColumn, viewTemplate)\<close>;
  \<^verbatim>\<open>mapView.webview\<close> is the webview of that view.
\<close>

datatype mapView = MapView string string uri int "template option"

datatype webview = WebviewOf mapView

datatype mapViewSerializer = MapViewSerializer string string "template option"

text \<open>
  The argument a command handler is invoked with: a \<^verbatim>\<open>Uri\<close>, nothing
  (\<^verbatim>\<open>undefined\<close>), or some other value.
\<close>

datatype arg = UriArg uri | Undefined | Other string

fun instanceofUri :: "arg \<Rightarrow> bool" where
  "instanceofUri (UriArg u) = True"
| "instanceofUri Undefined = False"
| "instanceofUri (Other v) = False"

subsection \<open>Calls on collaborators\<close>

text \<open>
  Everything a handler does is a call on an object outside this file: the window, the
  \<^verbatim>\<open>MapView\<close> class, a view, or the view registry \<^verbatim>\<open>viewManager\<close>. A handler is
  modelled by the sequence of calls it makes, in order, and its return value.
\<close>

datatype call =
    ShowInformationMessage string
  | NewMapView mapView
  | ViewManagerAdd mapView
  | ViewManagerFind uri
  | ViewManagerConfigure
  | Refresh mapView

text \<open>
  Modelled from the spec: the registry \<^verbatim>\<open>viewManager\<close> (\<^verbatim>\<open>./view.manager\<close>) is not
  among the sources; the spec gives it the methods add, find and configure. Its state is
  a type parameter and its three methods are parameters; \<^verbatim>\<open>find\<close> is a query.
\<close>

record 'r viewManager =
  vm_add :: "mapView \<Rightarrow> 'r \<Rightarrow> 'r"
  vm_find :: "uri \<Rightarrow> 'r \<Rightarrow> mapView option"
  vm_configure :: "'r \<Rightarrow> 'r"

text \<open>
  The registry after a sequence of calls: only the calls on \<^verbatim>\<open>viewManager\<close> reach it.
\<close>

fun registryStep :: "'r viewManager \<Rightarrow> call \<Rightarrow> 'r \<Rightarrow> 'r" where
  "registryStep vm (ViewManagerAdd v) r = vm_add vm v r"
| "registryStep vm ViewManagerConfigure r = vm_configure vm r"
| "registryStep vm (ViewManagerFind u) r = r"
| "registryStep vm (ShowInformationMessage m) r = r"
| "registryStep vm (NewMapView v) r = r"
| "registryStep vm (Refresh v) r = r"

fun registryAfter :: "'r viewManager \<Rightarrow> call list \<Rightarrow> 'r \<Rightarrow> 'r" where
  "registryAfter vm [] r = r"
| "registryAfter vm (c # cs) r = registryAfter vm cs (registryStep vm c r)"

text \<open>Projections of a call sequence.\<close>

fun refreshed :: "call list \<Rightarrow> mapView list" where
  "refreshed [] = []"
| "refreshed (Refresh v # cs) = v # refreshed cs"
| "refreshed (c # cs) = refreshed cs"

fun created :: "call list \<Rightarrow> mapView list" where
  "created [] = []"
| "created (NewMapView v # cs) = v # created cs"
| "created (c # cs) = created cs"

fun added :: "call list \<Rightarrow> mapView list" where
  "added [] = []"
| "added (ViewManagerAdd v # cs) = v # added cs"
| "added (c # cs) = added cs"

fun isRegistryCall :: "call \<Rightarrow> bool" where
  "isRegistryCall (ViewManagerAdd v) = True"
| "isRegistryCall (ViewManagerFind u) = True"
| "isRegistryCall ViewManagerConfigure = True"
| "isRegistryCall c = False"

definition registryCalls :: "call list \<Rightarrow> call list" where
  "registryCalls cs = filter isRegistryCall cs"

subsection \<open>\<^verbatim>\<open>isGeoDataFile\<close>\<close>

text \<open>\<^verbatim>\<open>String.prototype.endsWith\<close> with one argument.\<close>

definition endsWith :: "string \<Rightarrow> string \<Rightarrow> bool" where
  "endsWith s suffix =
     (length suffix \<le> length s \<and> drop (length s - length suffix) s = suffix)"

text \<open>
  \<^verbatim>\<open>path.basename\<close> belongs to the runtime's \<^verbatim>\<open>path\<close> module and differs between
  platforms; it is a parameter \<open>basename\<close> of everything that tests a file name.
\<close>

definition isGeoDataFile :: "(string \<Rightarrow> string) \<Rightarrow> document \<Rightarrow> bool" where
  "isGeoDataFile basename doc = endsWith (basename (fsPath (uri doc))) ''.geojson''"

text \<open>
  The POSIX flavour of \<^verbatim>\<open>path.basename\<close>, used to evaluate the definitions on
  concrete paths: trailing separators are dropped, then the part after the last
  separator is returned.
\<close>

definition posix_basename :: "string \<Rightarrow> string" where
  "posix_basename p =
     rev (takeWhile (\<lambda>c. c \<noteq> CHR ''/'') (dropWhile (\<lambda>c. c = CHR ''/'') (rev p)))"

subsection \<open>The view.map command\<close>

text \<open>
  \<^verbatim>\<open>getViewColumn\<close>: \<^verbatim>\<open>ViewColumn.One\<close>, or the active editor's view column plus one
  when there is an active editor whose view column is truthy (defined and not \<^verbatim>\<open>0\<close>).
\<close>

definition getViewColumn :: "window \<Rightarrow> int" where
  "getViewColumn w =
     (case activeTextEditor w of
        None \<Rightarrow> ViewColumn_One
      | Some activeEditor \<Rightarrow>
          (case viewColumn activeEditor of
             None \<Rightarrow> ViewColumn_One
           | Some c \<Rightarrow> if c \<noteq> 0 then c + 1 else ViewColumn_One))"

text \<open>
  The handler registered by \<^verbatim>\<open>createViewMapCommand\<close>. The case on the argument is
  the test \<^verbatim>\<open>resource instanceof Uri\<close>: a \<^verbatim>\<open>Uri\<close> is the resource, anything else is
  replaced by the active editor's document uri. The handler returns the webview of the
  new view, or undefined (\<open>None\<close>) after the early return.
\<close>

definition viewMapHandler ::
  "string \<Rightarrow> string \<Rightarrow> template option \<Rightarrow> window \<Rightarrow> arg \<Rightarrow> webview option \<times> call list" where
  "viewMapHandler viewType extensionPath viewTemplate w a =
     (let column = getViewColumn w;
          resource =
            (case a of
               UriArg u \<Rightarrow> Some u
             | _ \<Rightarrow>
                 (case activeTextEditor w of
                    Some editor \<Rightarrow> Some (uri (document editor))
                  | None \<Rightarrow> None))
      in case resource of
           None \<Rightarrow> (None, [ShowInformationMessage ''Open a geo data file to view map.''])
         | Some res \<Rightarrow>
             (let mapView = MapView viewType extensionPath res column viewTemplate
              in (Some (WebviewOf mapView), [NewMapView mapView, ViewManagerAdd mapView])))"

text \<open>\<^verbatim>\<open>createViewMapCommand\<close> registers the handler under the command id \<open>viewType\<close>.\<close>

definition createViewMapCommand ::
  "string \<Rightarrow> string \<Rightarrow> template option \<Rightarrow>
   string \<times> (window \<Rightarrow> arg \<Rightarrow> webview option \<times> call list)" where
  "createViewMapCommand viewType extensionPath viewTemplate =
     (viewType, viewMapHandler viewType extensionPath viewTemplate)"

subsection \<open>The listeners of \<^verbatim>\<open>activate\<close>\<close>

text \<open>On save: refresh the view found for the document's uri with scheme \<^verbatim>\<open>map\<close>.\<close>

definition onDidSaveTextDocument ::
  "(string \<Rightarrow> string) \<Rightarrow> 'r viewManager \<Rightarrow> 'r \<Rightarrow> document \<Rightarrow> call list" where
  "onDidSaveTextDocument basename vm r doc =
     (if isGeoDataFile basename doc then
        (let u = with_scheme (uri doc) ''map''
         in ViewManagerFind u #
            (case vm_find vm u r of
               Some mapView \<Rightarrow> [Refresh mapView]
             | None \<Rightarrow> []))
      else [])"

text \<open>
  On change: the view is looked up, and the body of the inner \<^verbatim>\<open>if\<close> holds only the
  commented-out \<^verbatim>\<open>// mapView.refresh();\<close>.
\<close>

fun onDidChangeTextDocument ::
  "(string \<Rightarrow> string) \<Rightarrow> 'r viewManager \<Rightarrow> 'r \<Rightarrow> textDocumentChangeEvent \<Rightarrow> call list" where
  "onDidChangeTextDocument basename vm r (TextDocumentChangeEvent doc contentChanges) =
     (if isGeoDataFile basename doc then
        (let u = with_scheme (uri doc) ''map''
         in ViewManagerFind u #
            (case vm_find vm u r of
               Some mapView \<Rightarrow> (if length contentChanges > 0 then [] else [])
             | None \<Rightarrow> []))
      else [])"

text \<open>On configuration change: the listener takes no argument it reads.\<close>

datatype configurationChangeEvent = ConfigurationChangeEvent "string list"

definition onDidChangeConfiguration :: "configurationChangeEvent \<Rightarrow> call list" where
  "onDidChangeConfiguration e = [ViewManagerConfigure]"

subsection \<open>\<^verbatim>\<open>activate\<close>\<close>

text \<open>
  The extension context: the extension's path and \<^verbatim>\<open>asAbsolutePath\<close>. What
  \<^verbatim>\<open>activate\<close> registers with the editor is collected in a record: the webview panel
  serializers, the commands by id, the disposables pushed to
  \<^verbatim>\<open>context.subscriptions\<close> (a command's disposable is named by the command id), the
  three workspace listeners and the lines logged.
\<close>

record extensionContext =
  extensionPath :: string
  asAbsolutePath :: "string \<Rightarrow> string"

record 'r extension =
  panelSerializers :: "(string \<times> mapViewSerializer) list"
  registeredCommands :: "(string \<times> (window \<Rightarrow> arg \<Rightarrow> webview option \<times> call list)) list"
  subscriptions :: "string list"
  saveListeners :: "('r viewManager \<Rightarrow> 'r \<Rightarrow> document \<Rightarrow> call list) list"
  changeListeners :: "('r viewManager \<Rightarrow> 'r \<Rightarrow> textDocumentChangeEvent \<Rightarrow> call list) list"
  configurationListeners :: "(configurationChangeEvent \<Rightarrow> call list) list"
  logged :: "(string \<times> string) list"

text \<open>
  The template manager (\<^verbatim>\<open>./template.manager\<close>) is not among the sources:
  \<open>getTemplate folder name\<close> stands for
  \<^verbatim>\<open>new TemplateManager(folder).getTemplate(name)\<close>.
\<close>

definition activate ::
  "(string \<Rightarrow> string) \<Rightarrow> (string \<Rightarrow> string \<Rightarrow> template option) \<Rightarrow> extensionContext \<Rightarrow>
   'r extension" where
  "activate basename getTemplate context =
     (let path = extensionPath context;
          mapViewTemplate = getTemplate (asAbsolutePath context ''templates'') ''map.view.html'';
          mapWebview = createViewMapCommand ''view.map'' path mapViewTemplate
      in \<lparr> panelSerializers =
             [(''map.view'', MapViewSerializer ''map.view'' path mapViewTemplate)],
           registeredCommands = [mapWebview],
           subscriptions = [fst mapWebview],
           saveListeners = [onDidSaveTextDocument basename],
           changeListeners = [onDidChangeTextDocument basename],
           configurationListeners = [onDidChangeConfiguration],
           logged = [(''activate(): activated! extPath:'', path)] \<rparr>)"

text \<open>
  The editor's side of the registrations: an event runs, in order, every handler
  registered for it. A command id with no handler runs nothing.
\<close>

datatype event =
    ExecuteCommand string arg
  | DidSaveTextDocument document
  | DidChangeTextDocument textDocumentChangeEvent
  | DidChangeConfiguration configurationChangeEvent

fun fire :: "'r extension \<Rightarrow> 'r viewManager \<Rightarrow> 'r \<Rightarrow> window \<Rightarrow> event \<Rightarrow> call list" where
  "fire ext vm r w (ExecuteCommand name a) =
     (case map_of (registeredCommands ext) name of
        None \<Rightarrow> []
      | Some handler \<Rightarrow> snd (handler w a))"
| "fire ext vm r w (DidSaveTextDocument doc) =
     concat (map (\<lambda>listener. listener vm r doc) (saveListeners ext))"
| "fire ext vm r w (DidChangeTextDocument e) =
     concat (map (\<lambda>listener. listener vm r e) (changeListeners ext))"
| "fire ext vm r w (DidChangeConfiguration e) =
     concat (map (\<lambda>listener. listener e) (configurationListeners ext))"

text \<open>
  Modelled from the spec: an instance of the missing registry \<^verbatim>\<open>viewManager\<close> ("maps
  URIs to open panel handles"), to evaluate the definitions on. It is the list of the
  views added, oldest first; a view is found under its resource's uri with scheme
  \<^verbatim>\<open>map\<close>, the key the save listener looks up; configuring keeps the list.
\<close>

definition listViewManager :: "(mapView list) viewManager" where
  "listViewManager =
     \<lparr> vm_add = (\<lambda>v r. r @ [v]),
       vm_find = (\<lambda>u r. find (\<lambda>v. case v of MapView t p res c tm \<Rightarrow> with_scheme res ''map'' = u) r),
       vm_configure = (\<lambda>r. r) \<rparr>"

section \<open>The webview side: \<^verbatim>\<open>src/web/scripts/map.view.js\<close>\<close>

text \<open>
  A JavaScript exception: a reference to an identifier that is not defined, or a
  property read or written on \<^verbatim>\<open>undefined\<close> or \<^verbatim>\<open>null\<close> (named by the property).
\<close>

datatype jsError = ReferenceError string | TypeError string

text \<open>Text put in an element or on the console: a string, or an error's message.\<close>

datatype content = Str string | ErrorMessage jsError

datatype vscodeApi = VsCodeApi

text \<open>Messages the page posts to the extension host.\<close>

datatype hostMessage = RefreshRequest | LoadView string string

text \<open>
  \<^verbatim>\<open>event.data\<close> of a message from the extension host: the fields the listener reads.
  The config is an opaque value.
\<close>

record 'c eventData =
  data_command :: string
  data_message :: string
  data_uri :: string
  data_config :: 'c
  data_fileName :: string

text \<open>
  The page: the script's variables (\<^verbatim>\<open>vscode\<close>, \<^verbatim>\<open>title\<close>, \<^verbatim>\<open>message\<close>, \<^verbatim>\<open>map\<close>,
  \<^verbatim>\<open>mapConfig\<close>, \<^verbatim>\<open>saveFileTypeSelector\<close>, \<^verbatim>\<open>dataUrlInput\<close>, \<^verbatim>\<open>dataUrl\<close>,
  \<^verbatim>\<open>dataFileName\<close>; \<open>None\<close> is \<^verbatim>\<open>undefined\<close> or \<^verbatim>\<open>null\<close>), the document's elements
  by id with their \<^verbatim>\<open>innerText\<close>, the state kept by \<^verbatim>\<open>vscode.setState\<close>, the messages
  posted by \<^verbatim>\<open>vscode.postMessage\<close> and the lines of \<^verbatim>\<open>console.error\<close>. A variable
  bound to an element holds the element's id.
\<close>

record 'c page =
  vscode :: "vscodeApi option"
  title :: "string option"
  message :: "string option"
  mapElement :: "string option"
  mapConfig :: "'c option"
  saveFileTypeSelector :: "string option"
  dataUrlInput :: "string option"
  dataUrl :: "string option"
  dataFileName :: "string option"
  elements :: "string \<rightharpoonup> content"
  persisted :: "string option"
  posted :: "hostMessage list"
  console :: "(string \<times> content) list"

definition getElementById :: "'c page \<Rightarrow> string \<Rightarrow> string option" where
  "getElementById p i = (if i \<in> dom (elements p) then Some i else None)"

text \<open>
  The \<^verbatim>\<open>DOMContentLoaded\<close> listener. \<open>acquireVsCodeApi\<close> is what the call
  \<^verbatim>\<open>acquireVsCodeApi()\<close> gives: the api, or the exception thrown outside a webview.
  Like the other listeners it returns the exception that leaves it, if any; the
  \<^verbatim>\<open>catch\<close> block is empty.
\<close>

definition onDOMContentLoaded ::
  "jsError + vscodeApi \<Rightarrow> 'c page \<Rightarrow> jsError option \<times> 'c page" where
  "onDOMContentLoaded acquireVsCodeApi p =
     (let p1 = p\<lparr> title := getElementById p ''title'',
                  message := getElementById p ''message'',
                  dataUrlInput := getElementById p ''data-url-input'',
                  saveFileTypeSelector := getElementById p ''save-file-type-selector'',
                  mapElement := getElementById p ''map'' \<rparr>
      in case acquireVsCodeApi of
           Inr api \<Rightarrow>
             (None, p1\<lparr> vscode := Some api, posted := posted p1 @ [RefreshRequest] \<rparr>)
         | Inl error \<Rightarrow> (None, p1))"

text \<open>
  Statements that may throw return the exception, if any, with the page as it is when
  the exception leaves them. \<^verbatim>\<open>showMessage\<close> writes \<^verbatim>\<open>message.innerText\<close>.
\<close>

definition showMessage :: "content \<Rightarrow> 'c page \<Rightarrow> jsError option \<times> 'c page" where
  "showMessage t p =
     (case message p of
        None \<Rightarrow> (Some (TypeError ''innerText''), p)
      | Some el \<Rightarrow> (None, p\<lparr> elements := (elements p)(el \<mapsto> t) \<rparr>))"

text \<open>\<^verbatim>\<open>view\<close>: clears the message; its \<^verbatim>\<open>try\<close> block holds only \<^verbatim>\<open>// TODO\<close>.\<close>

definition view :: "'c \<Rightarrow> 'c page \<Rightarrow> jsError option \<times> 'c page" where
  "view config p = showMessage (Str []) p"

text \<open>The \<^verbatim>\<open>try\<close> block of the \<^verbatim>\<open>'refresh'\<close> case.\<close>

definition refreshBody :: "'c eventData \<Rightarrow> 'c page \<Rightarrow> jsError option \<times> 'c page" where
  "refreshBody d p =
     (case vscode p of
        None \<Rightarrow> (Some (TypeError ''setState''), p)
      | Some api \<Rightarrow>
          (let p1 = p\<lparr> persisted := Some (data_uri d) \<rparr>;
               p2 = p1\<lparr> mapConfig := Some (data_config d) \<rparr>
           in case title p2 of
                None \<Rightarrow> (Some (TypeError ''innerText''), p2)
              | Some el \<Rightarrow>
                  (let p3 = p2\<lparr> elements := (elements p2)(el \<mapsto> Str (data_fileName d)) \<rparr>;
                       p4 = p3\<lparr> dataUrl := Some (data_uri d) \<rparr>;
                       p5 = p4\<lparr> dataFileName := Some (data_fileName d) \<rparr>
                   in view (data_config d) p5)))"

text \<open>
  The \<^verbatim>\<open>message\<close> listener. An exception of the \<^verbatim>\<open>try\<close> block is logged and shown;
  an exception of \<^verbatim>\<open>showMessage\<close> itself leaves the listener.
\<close>

definition onMessage :: "'c eventData \<Rightarrow> 'c page \<Rightarrow> jsError option \<times> 'c page" where
  "onMessage d p =
     (if data_command d = ''showMessage'' then showMessage (Str (data_message d)) p
      else if data_command d = ''refresh'' then
        (case refreshBody d p of
           (None, p') \<Rightarrow> (None, p')
         | (Some error, p') \<Rightarrow>
             showMessage (ErrorMessage error)
               (p'\<lparr> console := console p' @ [(''map.view:'', ErrorMessage error)] \<rparr>))
      else (None, p))"

text \<open>
  Modelled from the spec: \<^verbatim>\<open>MapView.refresh\<close> (\<^verbatim>\<open>./map.view\<close>), which posts the
  refresh message to the page, is not among the sources. The spec says the message
  contains the file's path and contents; the listener above reads them as \<^verbatim>\<open>uri\<close>
  and \<^verbatim>\<open>config\<close>. The spec does not say what the file name is: it is a parameter.
\<close>

definition refreshMessage :: "string \<Rightarrow> document \<Rightarrow> string eventData" where
  "refreshMessage fileName doc =
     \<lparr> data_command = ''refresh'', data_message = [], data_uri = fsPath (uri doc),
       data_config = getText doc, data_fileName = fileName \<rparr>"

section \<open>Concrete inputs\<close>

text \<open>
  A geo data file open in the first column, a window with that editor active and one
  with no editor, the view the command makes for the file, two refresh messages that
  differ in their config only, and three pages: one loaded in a webview with its
  elements present, one loaded in a webview from a document with no title element (the
  html template is not among the sources), and one loaded outside a webview.
\<close>

definition geoUri :: uri where
  "geoUri = \<lparr> scheme = ''file'', fsPath = ''/data/map.geojson'' \<rparr>"

definition geoDocument :: document where
  "geoDocument = \<lparr> uri = geoUri, languageId = ''json'', getText = ''{}'' \<rparr>"

definition editedGeoDocument :: document where
  "editedGeoDocument = \<lparr> uri = geoUri, languageId = ''plaintext'', getText = ''not json'' \<rparr>"

definition geoEditor :: textEditor where
  "geoEditor = \<lparr> document = geoDocument, viewColumn = Some 1 \<rparr>"

definition editorWindow :: window where
  "editorWindow = \<lparr> activeTextEditor = Some geoEditor \<rparr>"

definition emptyWindow :: window where
  "emptyWindow = \<lparr> activeTextEditor = None \<rparr>"

definition geoView :: mapView where
  "geoView = MapView ''view.map'' ''/ext'' geoUri 2 None"

definition geoContext :: extensionContext where
  "geoContext = \<lparr> extensionPath = ''/ext'', asAbsolutePath = (\<lambda>p. ''/ext/'' @ p) \<rparr>"

definition noTemplates :: "string \<Rightarrow> string \<Rightarrow> template option" where
  "noTemplates folder name = None"

definition refreshData :: "string eventData" where
  "refreshData =
     \<lparr> data_command = ''refresh'', data_message = [], data_uri = ''/data/map.geojson'',
       data_config = ''{}'', data_fileName = ''map.geojson'' \<rparr>"

definition blankPage :: "string page" where
  "blankPage =
     \<lparr> vscode = None, title = None, message = None, mapElement = None, mapConfig = None,
       saveFileTypeSelector = None, dataUrlInput = None, dataUrl = None,
       dataFileName = None,
       elements = [''title'' \<mapsto> Str [], ''message'' \<mapsto> Str [], ''map'' \<mapsto> Str []],
       persisted = None, posted = [], console = [] \<rparr>"

definition webviewPage :: "string page" where
  "webviewPage = snd (onDOMContentLoaded (Inr VsCodeApi) blankPage)"

definition browserPage :: "string page" where
  "browserPage = snd (onDOMContentLoaded (Inl (ReferenceError ''acquireVsCodeApi'')) blankPage)"

definition otherRefreshData :: "string eventData" where
  "otherRefreshData = refreshData\<lparr> data_config := ''{layers: 1}'' \<rparr>"

definition untitledPage :: "string page" where
  "untitledPage =
     snd (onDOMContentLoaded (Inr VsCodeApi)
            (blankPage\<lparr> elements := [''message'' \<mapsto> Str [], ''map'' \<mapsto> Str []] \<rparr>))"

section \<open>Facts about the concrete inputs\<close>

lemmas sample_defs =
  geoUri_def geoDocument_def editedGeoDocument_def geoEditor_def editorWindow_def
  emptyWindow_def geoView_def geoContext_def noTemplates_def refreshData_def blankPage_def
  webviewPage_def browserPage_def otherRefreshData_def untitledPage_def

lemma geoDocument_isGeoDataFile: "isGeoDataFile posix_basename geoDocument"
  by (simp add: isGeoDataFile_def posix_basename_def endsWith_def sample_defs)

lemma editedGeoDocument_isGeoDataFile: "isGeoDataFile posix_basename editedGeoDocument"
  by (simp add: isGeoDataFile_def posix_basename_def endsWith_def sample_defs)

lemma find_geoView:
  "vm_find listViewManager (with_scheme (uri geoDocument) ''map'') [geoView] = Some geoView"
  by (simp add: listViewManager_def with_scheme_def sample_defs)

lemma find_nothing:
  "vm_find listViewManager (with_scheme (uri geoDocument) ''map'') [] = None"
  by (simp add: listViewManager_def)

lemma webviewPage_variables:
  "vscode webviewPage = Some VsCodeApi \<and> title webviewPage = Some ''title'' \<and>
   message webviewPage = Some ''message'' \<and> posted webviewPage = [RefreshRequest]"
  by (simp add: onDOMContentLoaded_def getElementById_def sample_defs)

section \<open>Saving a document\<close>

text \<open>
  C1, as the spec states it, fails: saving a geo data file for which the registry holds
  no view makes the one call \<^verbatim>\<open>viewManager.find\<close>; no view is created and none is
  refreshed.
\<close>

theorem save_without_view_refreshes_nothing:
  "isGeoDataFile posix_basename geoDocument \<and>
   vm_find listViewManager (with_scheme (uri geoDocument) ''map'') [] = None \<and>
   onDidSaveTextDocument posix_basename listViewManager [] geoDocument =
     [ViewManagerFind (with_scheme (uri geoDocument) ''map'')] \<and>
   refreshed (onDidSaveTextDocument posix_basename listViewManager [] geoDocument) = [] \<and>
   created (onDidSaveTextDocument posix_basename listViewManager [] geoDocument) = []"
  using geoDocument_isGeoDataFile find_nothing
  by (simp add: onDidSaveTextDocument_def Let_def)

text \<open>
  C1 (amended): on every save of a geo data file the handler calls
  \<^verbatim>\<open>viewManager.find\<close> with the document's uri with scheme \<^verbatim>\<open>map\<close> and then
  \<^verbatim>\<open>refresh\<close> on the view found, if there is one, and these are its only calls; on a
  save of any other file it makes no call. So the views refreshed are exactly the view
  found, the handler creates no view, adds none and leaves the registry as it was.
\<close>

theorem save_refreshes_the_view_found:
  "onDidSaveTextDocument basename vm r doc =
     (if isGeoDataFile basename doc then
        ViewManagerFind (with_scheme (uri doc) ''map'') #
        (case vm_find vm (with_scheme (uri doc) ''map'') r of
           Some v \<Rightarrow> [Refresh v]
         | None \<Rightarrow> [])
      else []) \<and>
   refreshed (onDidSaveTextDocument basename vm r doc) =
     (if isGeoDataFile basename doc then
        (case vm_find vm (with_scheme (uri doc) ''map'') r of Some v \<Rightarrow> [v] | None \<Rightarrow> [])
      else []) \<and>
   created (onDidSaveTextDocument basename vm r doc) = [] \<and>
   added (onDidSaveTextDocument basename vm r doc) = [] \<and>
   registryAfter vm (onDidSaveTextDocument basename vm r doc) r = r"
  by (simp add: onDidSaveTextDocument_def Let_def split: option.split)

theorem save_refreshes_the_view_found_witness:
  "onDidSaveTextDocument posix_basename listViewManager [geoView] geoDocument =
     [ViewManagerFind (with_scheme geoUri ''map''), Refresh geoView] \<and>
   onDidSaveTextDocument posix_basename listViewManager [] geoDocument =
     [ViewManagerFind (with_scheme geoUri ''map'')] \<and>
   onDidSaveTextDocument posix_basename listViewManager [geoView]
     (geoDocument\<lparr> uri := geoUri\<lparr> fsPath := ''/data/notes.txt'' \<rparr> \<rparr>) = [] \<and>
   refreshed (onDidSaveTextDocument posix_basename listViewManager [geoView] geoDocument) =
     [geoView] \<and>
   created (onDidSaveTextDocument posix_basename listViewManager [geoView] geoDocument) = [] \<and>
   added (onDidSaveTextDocument posix_basename listViewManager [geoView] geoDocument) = [] \<and>
   registryAfter listViewManager
     (onDidSaveTextDocument posix_basename listViewManager [geoView] geoDocument) [geoView] =
     [geoView]"
proof -
  have u: "uri geoDocument = geoUri" by (simp add: geoDocument_def)
  have n: "\<not> isGeoDataFile posix_basename
       (geoDocument\<lparr> uri := geoUri\<lparr> fsPath := ''/data/notes.txt'' \<rparr> \<rparr>)"
    by (simp add: isGeoDataFile_def posix_basename_def endsWith_def)
  note found =
    save_refreshes_the_view_found [of posix_basename listViewManager "[geoView]" geoDocument]
  note missing =
    save_refreshes_the_view_found [of posix_basename listViewManager "[]" geoDocument]
  note other =
    save_refreshes_the_view_found [of posix_basename listViewManager "[geoView]"
      "geoDocument\<lparr> uri := geoUri\<lparr> fsPath := ''/data/notes.txt'' \<rparr> \<rparr>"]
  from found geoDocument_isGeoDataFile find_geoView u
  have 1: "onDidSaveTextDocument posix_basename listViewManager [geoView] geoDocument =
       [ViewManagerFind (with_scheme geoUri ''map''), Refresh geoView] \<and>
     refreshed (onDidSaveTextDocument posix_basename listViewManager [geoView] geoDocument) =
       [geoView] \<and>
     created (onDidSaveTextDocument posix_basename listViewManager [geoView] geoDocument) = [] \<and>
     added (onDidSaveTextDocument posix_basename listViewManager [geoView] geoDocument) = [] \<and>
     registryAfter listViewManager
       (onDidSaveTextDocument posix_basename listViewManager [geoView] geoDocument) [geoView] =
       [geoView]"
    by simp
  from missing geoDocument_isGeoDataFile find_nothing u
  have 2: "onDidSaveTextDocument posix_basename listViewManager [] geoDocument =
       [ViewManagerFind (with_scheme geoUri ''map'')]"
    by simp
  from other n
  have 3: "onDidSaveTextDocument posix_basename listViewManager [geoView]
       (geoDocument\<lparr> uri := geoUri\<lparr> fsPath := ''/data/notes.txt'' \<rparr> \<rparr>) = []"
    by simp
  from 1 2 3 show ?thesis by blast
qed

section \<open>The view.map command\<close>

text \<open>
  C2, as the spec states it, fails: with no argument, the file's editor active and a
  view of that file already in the registry, the handler makes no call to
  \<^verbatim>\<open>viewManager.find\<close>; it constructs a second view and adds it.
\<close>

theorem command_creates_view_beside_existing:
  "\<not> instanceofUri Undefined \<and>
   activeTextEditor editorWindow = Some geoEditor \<and>
   vm_find listViewManager (with_scheme (uri (document geoEditor)) ''map'') [geoView] =
     Some geoView \<and>
   viewMapHandler ''view.map'' ''/ext'' None editorWindow Undefined =
     (Some (WebviewOf geoView), [NewMapView geoView, ViewManagerAdd geoView]) \<and>
   registryAfter listViewManager
     (snd (viewMapHandler ''view.map'' ''/ext'' None editorWindow Undefined)) [geoView] =
     [geoView, geoView]"
  by (simp add: viewMapHandler_def getViewColumn_def ViewColumn_One_def Let_def
      listViewManager_def with_scheme_def sample_defs)

text \<open>
  C2 (amended): when the argument is not a \<^verbatim>\<open>Uri\<close> and there is an active text editor,
  the handler takes the uri of the active editor's document, constructs a new view for
  it without consulting the registry, then adds that view to the registry and returns
  its webview.
\<close>

theorem command_creates_and_adds_view:
  assumes "\<not> instanceofUri a" and "activeTextEditor w = Some editor"
  shows "viewMapHandler viewType path tmpl w a =
           (Some (WebviewOf (MapView viewType path (uri (document editor)) (getViewColumn w) tmpl)),
            [NewMapView (MapView viewType path (uri (document editor)) (getViewColumn w) tmpl),
             ViewManagerAdd (MapView viewType path (uri (document editor)) (getViewColumn w) tmpl)]) \<and>
         registryAfter vm (snd (viewMapHandler viewType path tmpl w a)) r =
           vm_add vm (MapView viewType path (uri (document editor)) (getViewColumn w) tmpl) r"
  using assms by (cases a) (simp_all add: viewMapHandler_def Let_def)

theorem command_creates_and_adds_view_witness:
  "\<not> instanceofUri (Other ''x'') \<and>
   activeTextEditor editorWindow = Some geoEditor \<and>
   viewMapHandler ''view.map'' ''/ext'' None editorWindow (Other ''x'') =
     (Some (WebviewOf geoView), [NewMapView geoView, ViewManagerAdd geoView]) \<and>
   registryAfter listViewManager
     (snd (viewMapHandler ''view.map'' ''/ext'' None editorWindow (Other ''x''))) [] = [geoView]"
proof -
  have a: "\<not> instanceofUri (Other ''x'')" by simp
  have e: "activeTextEditor editorWindow = Some geoEditor" by (simp add: sample_defs)
  have c: "getViewColumn editorWindow = 2"
    by (simp add: getViewColumn_def ViewColumn_One_def sample_defs)
  have v: "MapView ''view.map'' ''/ext'' (uri (document geoEditor)) 2 None = geoView"
    by (simp add: sample_defs)
  show ?thesis
    using command_creates_and_adds_view [OF a e, of "''view.map''" "''/ext''" None listViewManager "[]"]
      a e c v
    by (simp add: listViewManager_def)
qed

text \<open>
  C8: \<^verbatim>\<open>getViewColumn\<close> is the active editor's view column plus one when there is an
  active editor with a defined view column, and \<^verbatim>\<open>ViewColumn.One\<close> otherwise (a view
  column \<^verbatim>\<open>0\<close> is falsy and gives \<^verbatim>\<open>ViewColumn.One\<close>, which is \<^verbatim>\<open>0 + 1\<close>); and every
  view the command constructs is given that column.
\<close>

theorem created_view_column:
  "getViewColumn w =
     (case activeTextEditor w of
        None \<Rightarrow> ViewColumn_One
      | Some editor \<Rightarrow>
          (case viewColumn editor of None \<Rightarrow> ViewColumn_One | Some c \<Rightarrow> c + 1)) \<and>
   (\<forall>t p res c tm.
      MapView t p res c tm \<in> set (created (snd (viewMapHandler viewType path tmpl w a))) \<longrightarrow>
      c = (case activeTextEditor w of
             None \<Rightarrow> ViewColumn_One
           | Some editor \<Rightarrow>
               (case viewColumn editor of None \<Rightarrow> ViewColumn_One | Some c \<Rightarrow> c + 1)))"
proof -
  have col: "getViewColumn w =
     (case activeTextEditor w of
        None \<Rightarrow> ViewColumn_One
      | Some editor \<Rightarrow>
          (case viewColumn editor of None \<Rightarrow> ViewColumn_One | Some c \<Rightarrow> c + 1))"
    by (simp add: getViewColumn_def ViewColumn_One_def split: option.split)
  have "\<And>t p res c tm.
      MapView t p res c tm \<in> set (created (snd (viewMapHandler viewType path tmpl w a))) \<Longrightarrow>
      c = getViewColumn w"
    by (cases a; cases "activeTextEditor w") (simp_all add: viewMapHandler_def Let_def)
  with col show ?thesis by metis
qed

theorem created_view_column_witness:
  "getViewColumn editorWindow = 2 \<and>
   MapView ''view.map'' ''/ext'' geoUri 2 None \<in>
     set (created (snd (viewMapHandler ''view.map'' ''/ext'' None editorWindow Undefined))) \<and>
   getViewColumn emptyWindow = ViewColumn_One \<and>
   MapView ''view.map'' ''/ext'' geoUri ViewColumn_One None \<in>
     set (created (snd (viewMapHandler ''view.map'' ''/ext'' None emptyWindow (UriArg geoUri))))"
proof -
  have m1: "MapView ''view.map'' ''/ext'' geoUri 2 None \<in>
     set (created (snd (viewMapHandler ''view.map'' ''/ext'' None editorWindow Undefined)))"
    by (simp add: viewMapHandler_def getViewColumn_def ViewColumn_One_def Let_def sample_defs)
  have m2: "MapView ''view.map'' ''/ext'' geoUri ViewColumn_One None \<in>
     set (created (snd (viewMapHandler ''view.map'' ''/ext'' None emptyWindow (UriArg geoUri))))"
    by (simp add: viewMapHandler_def getViewColumn_def Let_def sample_defs)
  show ?thesis
    using created_view_column [of editorWindow "''view.map''" "''/ext''" None Undefined]
      created_view_column [of emptyWindow "''view.map''" "''/ext''" None "UriArg geoUri"] m1 m2
    by (simp add: sample_defs)
qed

text \<open>
  C9: invoked with an argument that is not a \<^verbatim>\<open>Uri\<close> while there is no active text
  editor, the handler shows the information message, returns undefined, constructs no
  view, adds none and leaves the registry unchanged.
\<close>

theorem command_without_editor:
  assumes "\<not> instanceofUri a" and "activeTextEditor w = None"
  shows "viewMapHandler viewType path tmpl w a =
           (None, [ShowInformationMessage ''Open a geo data file to view map.'']) \<and>
         created (snd (viewMapHandler viewType path tmpl w a)) = [] \<and>
         added (snd (viewMapHandler viewType path tmpl w a)) = [] \<and>
         registryAfter vm (snd (viewMapHandler viewType path tmpl w a)) r = r"
  using assms by (cases a) (simp_all add: viewMapHandler_def Let_def)

theorem command_without_editor_witness:
  "\<not> instanceofUri Undefined \<and>
   activeTextEditor emptyWindow = None \<and>
   viewMapHandler ''view.map'' ''/ext'' None emptyWindow Undefined =
     (None, [ShowInformationMessage ''Open a geo data file to view map.'']) \<and>
   created (snd (viewMapHandler ''view.map'' ''/ext'' None emptyWindow Undefined)) = [] \<and>
   added (snd (viewMapHandler ''view.map'' ''/ext'' None emptyWindow Undefined)) = [] \<and>
   registryAfter listViewManager
     (snd (viewMapHandler ''view.map'' ''/ext'' None emptyWindow Undefined)) [geoView] = [geoView]"
proof -
  have a: "\<not> instanceofUri Undefined" by simp
  have e: "activeTextEditor emptyWindow = None" by (simp add: sample_defs)
  show ?thesis
    using command_without_editor [OF a e, of "''view.map''" "''/ext''" None listViewManager "[geoView]"]
      a e
    by simp
qed

section \<open>Changing a document\<close>

text \<open>
  C3, as the spec states it, fails: a change event on a geo data file whose view is in
  the registry, with one content change, makes the one call \<^verbatim>\<open>viewManager.find\<close>
  and refreshes nothing.
\<close>

theorem change_refreshes_nothing_example:
  "isGeoDataFile posix_basename geoDocument \<and>
   vm_find listViewManager (with_scheme (uri geoDocument) ''map'') [geoView] = Some geoView \<and>
   length [ContentChange ''x''] > 0 \<and>
   onDidChangeTextDocument posix_basename listViewManager [geoView]
     (TextDocumentChangeEvent geoDocument [ContentChange ''x'']) =
     [ViewManagerFind (with_scheme (uri geoDocument) ''map'')] \<and>
   refreshed (onDidChangeTextDocument posix_basename listViewManager [geoView]
     (TextDocumentChangeEvent geoDocument [ContentChange ''x''])) = []"
  using geoDocument_isGeoDataFile find_geoView by (simp add: Let_def)

text \<open>
  C3 (amended): on every document-change event the handler refreshes no view and leaves
  the registry as it was; for a geo data file it looks the view up under the document's
  uri with scheme \<^verbatim>\<open>map\<close>, and for any other file it does nothing.
\<close>

theorem change_refreshes_nothing:
  "onDidChangeTextDocument basename vm r (TextDocumentChangeEvent doc changes) =
     (if isGeoDataFile basename doc then [ViewManagerFind (with_scheme (uri doc) ''map'')]
      else []) \<and>
   refreshed (onDidChangeTextDocument basename vm r (TextDocumentChangeEvent doc changes)) = [] \<and>
   registryAfter vm
     (onDidChangeTextDocument basename vm r (TextDocumentChangeEvent doc changes)) r = r"
  by (simp add: Let_def split: option.split)

theorem change_refreshes_nothing_witness:
  "onDidChangeTextDocument posix_basename listViewManager [geoView]
     (TextDocumentChangeEvent editedGeoDocument [ContentChange ''x'', ContentChange ''y'']) =
     [ViewManagerFind (with_scheme geoUri ''map'')] \<and>
   refreshed (onDidChangeTextDocument posix_basename listViewManager [geoView]
     (TextDocumentChangeEvent editedGeoDocument [ContentChange ''x'', ContentChange ''y''])) = [] \<and>
   registryAfter listViewManager
     (onDidChangeTextDocument posix_basename listViewManager [geoView]
        (TextDocumentChangeEvent editedGeoDocument [ContentChange ''x'', ContentChange ''y'']))
     [geoView] = [geoView]"
proof -
  have u: "uri editedGeoDocument = geoUri" by (simp add: sample_defs)
  show ?thesis
    using change_refreshes_nothing [of posix_basename listViewManager "[geoView]"
        editedGeoDocument "[ContentChange ''x'', ContentChange ''y'']"]
      editedGeoDocument_isGeoDataFile u
    by simp
qed

section \<open>Changing the configuration\<close>

text \<open>
  C4: whatever the configuration-change event, the window and the file-name test, the
  listener that \<^verbatim>\<open>activate\<close> registers makes exactly one call,
  \<^verbatim>\<open>viewManager.configure()\<close>: it adds no view and constructs none, and the registry
  after it is the registry configured once.
\<close>

theorem configuration_change_configures_once:
  "fire (activate basename getTemplate ctx) vm r w (DidChangeConfiguration e) =
     onDidChangeConfiguration e \<and>
   onDidChangeConfiguration e = [ViewManagerConfigure] \<and>
   length (filter (\<lambda>c. c = ViewManagerConfigure) (onDidChangeConfiguration e)) = 1 \<and>
   added (onDidChangeConfiguration e) = [] \<and>
   created (onDidChangeConfiguration e) = [] \<and>
   registryAfter vm (onDidChangeConfiguration e) r = vm_configure vm r"
  by (simp add: activate_def Let_def onDidChangeConfiguration_def)

theorem configuration_change_configures_once_witness:
  "fire (activate posix_basename noTemplates geoContext) listViewManager [geoView] emptyWindow
     (DidChangeConfiguration (ConfigurationChangeEvent [''geo.data.viewer.theme''])) =
     [ViewManagerConfigure] \<and>
   registryAfter listViewManager
     (onDidChangeConfiguration (ConfigurationChangeEvent [''geo.data.viewer.theme'']))
     [geoView] = [geoView]"
  using configuration_change_configures_once [of posix_basename noTemplates geoContext
      listViewManager "[geoView]" emptyWindow "ConfigurationChangeEvent [''geo.data.viewer.theme'']"]
  by (simp add: listViewManager_def)

section \<open>What \<^verbatim>\<open>activate\<close> registers\<close>

text \<open>
  C6: \<^verbatim>\<open>activate\<close> registers one command, \<^verbatim>\<open>view.map\<close>, whose handler is the one of
  \<^verbatim>\<open>createViewMapCommand\<close>, one save listener and one configuration listener. The
  calls they make on the registry are, in this order: for the command, an
  \<^verbatim>\<open>add\<close> of each view it constructs and nothing else; for a save, a \<^verbatim>\<open>find\<close> when
  the document is a geo data file; for a configuration change, one \<^verbatim>\<open>configure\<close>.
\<close>

theorem activate_wires_registry:
  fixes vm :: "'r viewManager"
  shows
  "map fst (registeredCommands (activate basename getTemplate ctx :: 'r extension)) =
     [''view.map''] \<and>
   subscriptions (activate basename getTemplate ctx :: 'r extension) = [''view.map''] \<and>
   length (saveListeners (activate basename getTemplate ctx :: 'r extension)) = 1 \<and>
   length (configurationListeners (activate basename getTemplate ctx :: 'r extension)) = 1 \<and>
   fire (activate basename getTemplate ctx) vm r w (ExecuteCommand ''view.map'' a) =
     snd (viewMapHandler ''view.map'' (extensionPath ctx)
            (getTemplate (asAbsolutePath ctx ''templates'') ''map.view.html'') w a) \<and>
   registryCalls (fire (activate basename getTemplate ctx) vm r w (ExecuteCommand ''view.map'' a)) =
     map ViewManagerAdd
       (created (fire (activate basename getTemplate ctx) vm r w (ExecuteCommand ''view.map'' a))) \<and>
   fire (activate basename getTemplate ctx) vm r w (DidSaveTextDocument doc) =
     onDidSaveTextDocument basename vm r doc \<and>
   registryCalls (fire (activate basename getTemplate ctx) vm r w (DidSaveTextDocument doc)) =
     (if isGeoDataFile basename doc then [ViewManagerFind (with_scheme (uri doc) ''map'')]
      else []) \<and>
   fire (activate basename getTemplate ctx) vm r w (DidChangeConfiguration e) =
     onDidChangeConfiguration e \<and>
   registryCalls (fire (activate basename getTemplate ctx) vm r w (DidChangeConfiguration e)) =
     [ViewManagerConfigure]"
proof -
  let ?ext = "activate basename getTemplate ctx :: 'r extension"
  let ?h = "viewMapHandler ''view.map'' (extensionPath ctx)
            (getTemplate (asAbsolutePath ctx ''templates'') ''map.view.html'') w a"
  have cmd: "fire ?ext vm r w (ExecuteCommand ''view.map'' a) = snd ?h"
    by (simp add: activate_def createViewMapCommand_def Let_def)
  have cmd_calls: "registryCalls (snd ?h) = map ViewManagerAdd (created (snd ?h))"
    by (cases a; cases "activeTextEditor w")
       (simp_all add: viewMapHandler_def registryCalls_def Let_def)
  have save: "fire ?ext vm r w (DidSaveTextDocument doc) = onDidSaveTextDocument basename vm r doc"
    by (simp add: activate_def Let_def)
  have save_calls: "registryCalls (onDidSaveTextDocument basename vm r doc) =
     (if isGeoDataFile basename doc then [ViewManagerFind (with_scheme (uri doc) ''map'')]
      else [])"
    by (simp add: onDidSaveTextDocument_def registryCalls_def Let_def split: option.split)
  have conf: "fire ?ext vm r w (DidChangeConfiguration e) = onDidChangeConfiguration e"
    by (simp add: activate_def Let_def)
  have conf_calls: "registryCalls (onDidChangeConfiguration e) = [ViewManagerConfigure]"
    by (simp add: onDidChangeConfiguration_def registryCalls_def)
  have regs: "map fst (registeredCommands ?ext) = [''view.map''] \<and>
     subscriptions ?ext = [''view.map''] \<and>
     length (saveListeners ?ext) = 1 \<and> length (configurationListeners ?ext) = 1"
    by (simp add: activate_def createViewMapCommand_def Let_def)
  show ?thesis
    using regs cmd cmd_calls save save_calls conf conf_calls by simp
qed

theorem activate_wires_registry_witness:
  "registryCalls (fire (activate posix_basename noTemplates geoContext) listViewManager []
     editorWindow (ExecuteCommand ''view.map'' Undefined)) = [ViewManagerAdd geoView] \<and>
   registryCalls (fire (activate posix_basename noTemplates geoContext) listViewManager []
     editorWindow (DidSaveTextDocument geoDocument)) =
     [ViewManagerFind (with_scheme geoUri ''map'')] \<and>
   registryCalls (fire (activate posix_basename noTemplates geoContext) listViewManager []
     editorWindow (DidChangeConfiguration (ConfigurationChangeEvent []))) =
     [ViewManagerConfigure]"
proof -
  let ?ext = "activate posix_basename noTemplates geoContext :: (mapView list) extension"
  let ?cmd = "fire ?ext listViewManager [] editorWindow (ExecuteCommand ''view.map'' Undefined)"
  note wired = activate_wires_registry [of posix_basename noTemplates geoContext
      listViewManager "[]" editorWindow Undefined geoDocument "ConfigurationChangeEvent []"]
  have h: "viewMapHandler ''view.map'' (extensionPath geoContext)
       (noTemplates (asAbsolutePath geoContext ''templates'') ''map.view.html'')
       editorWindow Undefined =
     (Some (WebviewOf geoView), [NewMapView geoView, ViewManagerAdd geoView])"
    by (simp add: viewMapHandler_def getViewColumn_def ViewColumn_One_def Let_def sample_defs)
  from wired have "?cmd = snd (viewMapHandler ''view.map'' (extensionPath geoContext)
       (noTemplates (asAbsolutePath geoContext ''templates'') ''map.view.html'')
       editorWindow Undefined)"
    by blast
  with h have cmd: "?cmd = [NewMapView geoView, ViewManagerAdd geoView]"
    by (simp del: fire.simps)
  from wired have "registryCalls ?cmd = map ViewManagerAdd (created ?cmd)"
    by blast
  with cmd have 1: "registryCalls ?cmd = [ViewManagerAdd geoView]"
    by (simp del: fire.simps)
  from wired have "registryCalls (fire ?ext listViewManager [] editorWindow
       (DidSaveTextDocument geoDocument)) =
     (if isGeoDataFile posix_basename geoDocument
      then [ViewManagerFind (with_scheme (uri geoDocument) ''map'')] else [])"
    by blast
  with geoDocument_isGeoDataFile
  have 2: "registryCalls (fire ?ext listViewManager [] editorWindow
       (DidSaveTextDocument geoDocument)) = [ViewManagerFind (with_scheme geoUri ''map'')]"
    by (simp del: fire.simps add: geoDocument_def)
  from wired have 3: "registryCalls (fire ?ext listViewManager [] editorWindow
       (DidChangeConfiguration (ConfigurationChangeEvent []))) = [ViewManagerConfigure]"
    by blast
  from 1 2 3 show ?thesis by blast
qed

section \<open>The file-name test and the document's text\<close>

text \<open>
  C7: \<^verbatim>\<open>isGeoDataFile\<close> is true exactly when the base name of the document's
  \<^verbatim>\<open>fsPath\<close> ends with \<^verbatim>\<open>.geojson\<close>, so two documents with the same \<^verbatim>\<open>fsPath\<close> get
  the same answer whatever their text; and the save and change handlers do the same
  for two documents with the same uri, whatever their text and language.
\<close>

theorem geo_test_reads_path_only:
  "isGeoDataFile basename d1 = endsWith (basename (fsPath (uri d1))) ''.geojson'' \<and>
   (fsPath (uri d1) = fsPath (uri d2) \<longrightarrow>
      isGeoDataFile basename d1 = isGeoDataFile basename d2) \<and>
   (uri d1 = uri d2 \<longrightarrow>
      onDidSaveTextDocument basename vm r d1 = onDidSaveTextDocument basename vm r d2 \<and>
      onDidChangeTextDocument basename vm r (TextDocumentChangeEvent d1 changes) =
        onDidChangeTextDocument basename vm r (TextDocumentChangeEvent d2 changes))"
  by (simp add: isGeoDataFile_def onDidSaveTextDocument_def)

theorem geo_test_reads_path_only_witness:
  "getText geoDocument \<noteq> getText editedGeoDocument \<and>
   fsPath (uri geoDocument) = fsPath (uri editedGeoDocument) \<and>
   uri geoDocument = uri editedGeoDocument \<and>
   isGeoDataFile posix_basename geoDocument = isGeoDataFile posix_basename editedGeoDocument \<and>
   onDidSaveTextDocument posix_basename listViewManager [geoView] geoDocument =
     onDidSaveTextDocument posix_basename listViewManager [geoView] editedGeoDocument \<and>
   onDidChangeTextDocument posix_basename listViewManager [geoView]
       (TextDocumentChangeEvent geoDocument [ContentChange ''x'']) =
     onDidChangeTextDocument posix_basename listViewManager [geoView]
       (TextDocumentChangeEvent editedGeoDocument [ContentChange ''x''])"
proof -
  have t: "getText geoDocument \<noteq> getText editedGeoDocument" by (simp add: sample_defs)
  have u: "uri geoDocument = uri editedGeoDocument" by (simp add: sample_defs)
  have f: "fsPath (uri geoDocument) = fsPath (uri editedGeoDocument)" by (simp add: sample_defs)
  note same = geo_test_reads_path_only [of posix_basename geoDocument editedGeoDocument
      listViewManager "[geoView]" "[ContentChange ''x'']"]
  from same f have 1:
    "isGeoDataFile posix_basename geoDocument = isGeoDataFile posix_basename editedGeoDocument"
    by blast
  from same u have 2:
    "onDidSaveTextDocument posix_basename listViewManager [geoView] geoDocument =
       onDidSaveTextDocument posix_basename listViewManager [geoView] editedGeoDocument \<and>
     onDidChangeTextDocument posix_basename listViewManager [geoView]
         (TextDocumentChangeEvent geoDocument [ContentChange ''x'']) =
       onDidChangeTextDocument posix_basename listViewManager [geoView]
         (TextDocumentChangeEvent editedGeoDocument [ContentChange ''x''])"
    by blast
  from t f u 1 2 show ?thesis by blast
qed

section \<open>The webview page\<close>

text \<open>
  C10: when \<^verbatim>\<open>acquireVsCodeApi()\<close> returns the api, the \<^verbatim>\<open>DOMContentLoaded\<close> listener
  keeps it in \<^verbatim>\<open>vscode\<close> and posts exactly one message, \<^verbatim>\<open>{command: 'refresh'}\<close>;
  when the call throws, the listener posts nothing, leaves \<^verbatim>\<open>vscode\<close> as it was, and no
  exception leaves it.
\<close>

theorem page_load_requests_refresh:
  "fst (onDOMContentLoaded (Inr api) p) = None \<and>
   vscode (snd (onDOMContentLoaded (Inr api) p)) = Some api \<and>
   posted (snd (onDOMContentLoaded (Inr api) p)) = posted p @ [RefreshRequest] \<and>
   fst (onDOMContentLoaded (Inl err) p) = None \<and>
   vscode (snd (onDOMContentLoaded (Inl err) p)) = vscode p \<and>
   posted (snd (onDOMContentLoaded (Inl err) p)) = posted p"
  by (simp add: onDOMContentLoaded_def Let_def)

theorem page_load_requests_refresh_witness:
  "posted webviewPage = [RefreshRequest] \<and> vscode webviewPage = Some VsCodeApi \<and>
   posted browserPage = [] \<and> vscode browserPage = None"
  using page_load_requests_refresh [of VsCodeApi blankPage "ReferenceError ''acquireVsCodeApi''"]
  by (simp add: sample_defs)

text \<open>
  C5, as the spec states it, fails inside a webview. There \<^verbatim>\<open>view\<close> renders nothing:
  two \<^verbatim>\<open>refresh\<close> messages that differ in their config leave pages that differ in
  the variable \<^verbatim>\<open>mapConfig\<close> only, and the map element is as it was. And on a page
  whose document has no title element the uri and the file name are not recorded.
\<close>

theorem refresh_in_webview_renders_nothing:
  "data_command refreshData = ''refresh'' \<and>
   data_command otherRefreshData = ''refresh'' \<and>
   data_config refreshData \<noteq> data_config otherRefreshData \<and>
   vscode webviewPage = Some VsCodeApi \<and>
   view (data_config refreshData) webviewPage = view (data_config otherRefreshData) webviewPage \<and>
   (snd (onMessage refreshData webviewPage))\<lparr> mapConfig := None \<rparr> =
     (snd (onMessage otherRefreshData webviewPage))\<lparr> mapConfig := None \<rparr> \<and>
   elements (snd (onMessage refreshData webviewPage)) ''map'' = elements webviewPage ''map'' \<and>
   vscode untitledPage = Some VsCodeApi \<and>
   title untitledPage = None \<and>
   dataUrl (snd (onMessage refreshData untitledPage)) = None \<and>
   dataFileName (snd (onMessage refreshData untitledPage)) = None"
  by (simp add: onMessage_def refreshBody_def view_def showMessage_def onDOMContentLoaded_def
      getElementById_def Let_def sample_defs)

text \<open>
  C5 (amended): every refresh message contains the previewed file's path and its
  contents, as its uri and config. On receiving a message with command \<^verbatim>\<open>refresh\<close>
  in a webview (\<^verbatim>\<open>vscode\<close> holds the api), the page persists the message's uri as its
  state and records the message's config; when the title element exists it then sets
  the title's text to the file name, records the uri and the file name and calls
  \<^verbatim>\<open>view\<close> with the config. \<^verbatim>\<open>view\<close> renders nothing, whatever the config: it only
  clears the message element. When the title element is missing, the uri and the file
  name are not recorded; that error, like the error of \<^verbatim>\<open>view\<close> when the message
  element is missing, is logged and shown in the message element, and leaves the
  listener when there is no message element. Nothing else of the page changes.
\<close>

theorem refresh_in_webview_records_message:
  "data_command (refreshMessage fileName doc) = ''refresh'' \<and>
   data_uri (refreshMessage fileName doc) = fsPath (uri doc) \<and>
   data_config (refreshMessage fileName doc) = getText doc \<and>
   (data_command d = ''refresh'' \<and> vscode p = Some api \<longrightarrow>
      persisted (snd (onMessage d p)) = Some (data_uri d) \<and>
      mapConfig (snd (onMessage d p)) = Some (data_config d) \<and>
      onMessage d p =
        (case title p of
           Some t \<Rightarrow>
             (case message p of
                Some m \<Rightarrow>
                  (None, p\<lparr> persisted := Some (data_uri d),
                            mapConfig := Some (data_config d),
                            dataUrl := Some (data_uri d),
                            dataFileName := Some (data_fileName d),
                            elements := (elements p)(t \<mapsto> Str (data_fileName d), m \<mapsto> Str []) \<rparr>)
              | None \<Rightarrow>
                  (Some (TypeError ''innerText''),
                   p\<lparr> persisted := Some (data_uri d),
                      mapConfig := Some (data_config d),
                      dataUrl := Some (data_uri d),
                      dataFileName := Some (data_fileName d),
                      elements := (elements p)(t \<mapsto> Str (data_fileName d)),
                      console := console p @
                        [(''map.view:'', ErrorMessage (TypeError ''innerText''))] \<rparr>))
         | None \<Rightarrow>
             (case message p of
                Some m \<Rightarrow>
                  (None, p\<lparr> persisted := Some (data_uri d),
                            mapConfig := Some (data_config d),
                            elements :=
                              (elements p)(m \<mapsto> ErrorMessage (TypeError ''innerText'')),
                            console := console p @
                              [(''map.view:'', ErrorMessage (TypeError ''innerText''))] \<rparr>)
              | None \<Rightarrow>
                  (Some (TypeError ''innerText''),
                   p\<lparr> persisted := Some (data_uri d),
                      mapConfig := Some (data_config d),
                      console := console p @
                        [(''map.view:'', ErrorMessage (TypeError ''innerText''))] \<rparr>)))) \<and>
   view config p = showMessage (Str []) p"
  by (auto simp add: refreshMessage_def onMessage_def refreshBody_def view_def showMessage_def
      Let_def split: option.split)

theorem refresh_in_webview_records_message_witness:
  "data_command (refreshMessage ''map.geojson'' geoDocument) = ''refresh'' \<and>
   data_uri (refreshMessage ''map.geojson'' geoDocument) = ''/data/map.geojson'' \<and>
   data_config (refreshMessage ''map.geojson'' geoDocument) = ''{}'' \<and>
   vscode webviewPage = Some VsCodeApi \<and>
   title webviewPage = Some ''title'' \<and>
   message webviewPage = Some ''message'' \<and>
   fst (onMessage (refreshMessage ''map.geojson'' geoDocument) webviewPage) = None \<and>
   persisted (snd (onMessage (refreshMessage ''map.geojson'' geoDocument) webviewPage)) =
     Some ''/data/map.geojson'' \<and>
   mapConfig (snd (onMessage (refreshMessage ''map.geojson'' geoDocument) webviewPage)) =
     Some ''{}'' \<and>
   dataUrl (snd (onMessage (refreshMessage ''map.geojson'' geoDocument) webviewPage)) =
     Some ''/data/map.geojson'' \<and>
   dataFileName (snd (onMessage (refreshMessage ''map.geojson'' geoDocument) webviewPage)) =
     Some ''map.geojson'' \<and>
   elements (snd (onMessage (refreshMessage ''map.geojson'' geoDocument) webviewPage))
     ''title'' = Some (Str ''map.geojson'') \<and>
   elements (snd (onMessage (refreshMessage ''map.geojson'' geoDocument) webviewPage))
     ''message'' = Some (Str [])"
proof -
  let ?d = "refreshMessage ''map.geojson'' geoDocument"
  have v: "vscode webviewPage = Some VsCodeApi" using webviewPage_variables by simp
  have t: "title webviewPage = Some ''title''" using webviewPage_variables by simp
  have m: "message webviewPage = Some ''message''" using webviewPage_variables by simp
  have f: "data_uri ?d = ''/data/map.geojson'' \<and> data_config ?d = ''{}'' \<and>
     data_fileName ?d = ''map.geojson''"
    by (simp add: refreshMessage_def sample_defs)
  note received =
    refresh_in_webview_records_message [of "''map.geojson''" geoDocument ?d webviewPage VsCodeApi]
  from received have c: "data_command ?d = ''refresh''" by blast
  from received c v have
    "onMessage ?d webviewPage =
       (case title webviewPage of
          Some t \<Rightarrow>
            (case message webviewPage of
               Some m \<Rightarrow>
                 (None, webviewPage\<lparr> persisted := Some (data_uri ?d),
                           mapConfig := Some (data_config ?d),
                           dataUrl := Some (data_uri ?d),
                           dataFileName := Some (data_fileName ?d),
                           elements := (elements webviewPage)
                             (t \<mapsto> Str (data_fileName ?d), m \<mapsto> Str []) \<rparr>)
             | None \<Rightarrow>
                 (Some (TypeError ''innerText''),
                  webviewPage\<lparr> persisted := Some (data_uri ?d),
                     mapConfig := Some (data_config ?d),
                     dataUrl := Some (data_uri ?d),
                     dataFileName := Some (data_fileName ?d),
                     elements := (elements webviewPage)(t \<mapsto> Str (data_fileName ?d)),
                     console := console webviewPage @
                       [(''map.view:'', ErrorMessage (TypeError ''innerText''))] \<rparr>))
        | None \<Rightarrow>
            (case message webviewPage of
               Some m \<Rightarrow>
                 (None, webviewPage\<lparr> persisted := Some (data_uri ?d),
                           mapConfig := Some (data_config ?d),
                           elements := (elements webviewPage)
                             (m \<mapsto> ErrorMessage (TypeError ''innerText'')),
                           console := console webviewPage @
                             [(''map.view:'', ErrorMessage (TypeError ''innerText''))] \<rparr>)
             | None \<Rightarrow>
                 (Some (TypeError ''innerText''),
                  webviewPage\<lparr> persisted := Some (data_uri ?d),
                     mapConfig := Some (data_config ?d),
                     console := console webviewPage @
                       [(''map.view:'', ErrorMessage (TypeError ''innerText''))] \<rparr>)))"
    by blast
  with t m f have r: "onMessage ?d webviewPage =
      (None, webviewPage\<lparr> persisted := Some ''/data/map.geojson'',
                mapConfig := Some ''{}'',
                dataUrl := Some ''/data/map.geojson'',
                dataFileName := Some ''map.geojson'',
                elements := (elements webviewPage)
                  (''title'' \<mapsto> Str ''map.geojson'', ''message'' \<mapsto> Str []) \<rparr>)"
    by simp
  from r c v t m f show ?thesis by simp
qed

end
